theory Spec2Isabelle
  imports Complex_Main
begin

section \<open>Python values\<close>

text \<open>
  The program is Python 3 over numpy.  A number is a Python \<open>int\<close>, a Python \<open>float\<close> or
  a numpy scalar (what iterating \<open>numpy.arange\<close> yields and what \<open>numpy.pmt\<close> returns).
  The three are kept apart because the source tells them apart:
  \<^item> \<open>x is 0\<close> and \<open>x is 1\<close> are identity tests; they hold for the \<open>int\<close> objects 0 and 1 only,
    never for the float \<open>0.0\<close> and never for a numpy scalar;
  \<^item> a Python number divided by a Python zero raises \<open>ZeroDivisionError\<close>, while a division
    with a numpy operand yields \<open>inf\<close> or \<open>nan\<close> and goes on.
  Arithmetic is exact: a float is modelled by the real number it stands for, so rounding is
  not part of the model.  Where numpy would go on with \<open>inf\<close> or \<open>nan\<close> the model stops with
  the outcome \<open>NonFinite\<close>, and says nothing about what follows.
\<close>

datatype pynum = PyInt int | PyFloat real | NpScalar real

fun val :: "pynum \<Rightarrow> real" where
  "val (PyInt i) = of_int i"
| "val (PyFloat x) = x"
| "val (NpScalar x) = x"

fun is_np :: "pynum \<Rightarrow> bool" where
  "is_np (NpScalar x) = True"
| "is_np (PyInt i) = False"
| "is_np (PyFloat x) = False"

text \<open>The result type of \<open>+\<close>, \<open>-\<close> and \<open>*\<close>: numpy wins, then float, and two ints give an int.\<close>

definition arith :: "(real \<Rightarrow> real \<Rightarrow> real) \<Rightarrow> (int \<Rightarrow> int \<Rightarrow> int) \<Rightarrow> pynum \<Rightarrow> pynum \<Rightarrow> pynum" where
  "arith f g a b =
     (if is_np a \<or> is_np b then NpScalar (f (val a) (val b))
      else case (a, b) of
             (PyInt x, PyInt y) \<Rightarrow> PyInt (g x y)
           | _ \<Rightarrow> PyFloat (f (val a) (val b)))"

definition py_add :: "pynum \<Rightarrow> pynum \<Rightarrow> pynum" where
  "py_add a b = arith (+) (+) a b"

definition py_sub :: "pynum \<Rightarrow> pynum \<Rightarrow> pynum" where
  "py_sub a b = arith (-) (-) a b"

definition py_mul :: "pynum \<Rightarrow> pynum \<Rightarrow> pynum" where
  "py_mul a b = arith (*) (*) a b"

datatype validation =
    Savings_unset          \<comment> \<open>'savings' bound must be set in your constraints.\<close>
  | Savings_too_low        \<comment> \<open>Your savings are not high enough. ...\<close>
  | No_constraints         \<comment> \<open>You did not't provide any constraints. ...\<close>
  | Interest_rate_unset    \<comment> \<open>'interest_rate' value is required in the financing argument.\<close>

datatype error =
    KeyError string
  | ValueError validation
  | ZeroDivisionError
  | RecursionError
  | NonFinite

text \<open>True division \<open>a / b\<close>: always a float (Python 3), or a numpy scalar.\<close>

definition py_div :: "pynum \<Rightarrow> pynum \<Rightarrow> error + pynum" where
  "py_div a b =
     (if val b = 0 then (if is_np a \<or> is_np b then Inl NonFinite else Inl ZeroDivisionError)
      else if is_np a \<or> is_np b then Inr (NpScalar (val a / val b))
      else Inr (PyFloat (val a / val b)))"

definition and_then :: "error + 'a \<Rightarrow> ('a \<Rightarrow> error + 'b) \<Rightarrow> error + 'b" where
  "and_then r f = (case r of Inl e \<Rightarrow> Inl e | Inr x \<Rightarrow> f x)"

type_synonym dict = "string \<rightharpoonup> pynum"

text \<open>\<open>d[k]\<close> raises \<open>KeyError\<close> on a missing key.\<close>

definition getitem :: "dict \<Rightarrow> string \<Rightarrow> error + pynum" where
  "getitem d k = (case d k of None \<Rightarrow> Inl (KeyError k) | Some v \<Rightarrow> Inr v)"

section \<open>numpy\<close>

text \<open>
  \<open>numpy.pmt(rate, nper, pv)\<close> with \<open>fv = 0\<close> and payments at the end of the period, as
  numpy's \<open>financial.py\<close> computes it: \<open>temp = (1 + rate)**nper\<close>, \<open>fact = nper\<close> when
  \<open>rate == 0\<close> and \<open>(temp - 1) / rate\<close> otherwise, result \<open>-(pv * temp) / fact\<close>.
  numpy divides by a zero \<open>fact\<close> without raising; the model stops there.
\<close>

definition pmt :: "real \<Rightarrow> nat \<Rightarrow> real \<Rightarrow> error + pynum" where
  "pmt rate nper pv =
     (let temp = (1 + rate) ^ nper;
          fact = (if rate = 0 then real nper else (temp - 1) / rate)
      in if fact = 0 then Inl NonFinite else Inr (NpScalar (- (pv * temp) / fact)))"

definition py_abs :: "pynum \<Rightarrow> pynum" where
  "py_abs a = (case a of PyInt i \<Rightarrow> PyInt \<bar>i\<bar> | PyFloat x \<Rightarrow> PyFloat \<bar>x\<bar> | NpScalar x \<Rightarrow> NpScalar \<bar>x\<bar>)"

text \<open>
  \<open>numpy.arange(start, stop, step)\<close> for a positive step: \<open>ceil((stop - start) / step)\<close>
  numpy scalars \<open>start + k * step\<close>.
\<close>

definition arange :: "pynum \<Rightarrow> pynum \<Rightarrow> pynum \<Rightarrow> pynum list" where
  "arange start stop step =
     map (\<lambda>k. NpScalar (val start + real k * val step))
         [0 ..< nat \<lceil>(val stop - val start) / val step\<rceil>]"

section \<open>class Mortgage\<close>

record Mortgage =
  home_value :: pynum
  financing :: dict
  asset :: dict

text \<open>The three \<open>if ... not in asset\<close> statements of \<open>Mortgage.__init__\<close>.\<close>

definition asset_defaults :: "pynum \<Rightarrow> dict \<Rightarrow> dict" where
  "asset_defaults hv a0 =
     (let a1 = (if ''current_value'' \<in> dom a0 then a0 else a0(''current_value'' \<mapsto> hv));
          a2 = (if ''tax_rate'' \<in> dom a1 then a1 else a1(''tax_rate'' \<mapsto> PyFloat 0.01));
          a3 = (if ''hoa'' \<in> dom a2 then a2 else a2(''hoa'' \<mapsto> PyInt 0))
      in a3)"

text \<open>
  \<open>Mortgage(home_value, financing, asset)\<close> called with dicts nobody else holds (every call
  inside \<open>MortgageModel\<close> passes fresh dict displays), so the object can carry the dicts
  themselves.  The constructor on shared dicts is \<open>Mortgage_init\<close> below.
\<close>

definition Mortgage_new :: "pynum \<Rightarrow> dict \<Rightarrow> dict \<Rightarrow> Mortgage" where
  "Mortgage_new hv fin a =
     \<lparr>home_value = hv, financing = fin, asset = asset_defaults hv a\<rparr>"

definition isValid :: "Mortgage \<Rightarrow> bool" where
  "isValid self = (val (home_value self) > 0)"

definition pmi :: "pynum \<Rightarrow> pynum \<Rightarrow> pynum" where
  "pmi mortgage_size percent_down =
     (if val percent_down \<ge> 0.2 then PyInt 0
      else if val percent_down \<ge> 0.15 then py_mul mortgage_size (PyFloat 0.0044)
      else if val percent_down \<ge> 0.1 then py_mul mortgage_size (PyFloat 0.0059)
      else if val percent_down \<ge> 0.05 then py_mul mortgage_size (PyFloat 0.0076)
      else py_mul mortgage_size (PyFloat 0.0098))"

text \<open>
  \<open>Mortgage.cost\<close>.  The empty dict is returned when \<open>self.home_value is 0\<close>, an identity
  test.  The lookups and the division raise in the order the source evaluates them.
  The number of payments passed to \<open>numpy.pmt\<close> is the literal \<open>12*30\<close>.
\<close>

definition cost :: "Mortgage \<Rightarrow> error + dict" where
  "cost self =
     (if home_value self = PyInt 0 then Inr Map.empty
      else
        and_then (getitem (asset self) ''current_value'') (\<lambda>asset_value.
        and_then (getitem (financing self) ''down_payment'') (\<lambda>down_payment.
        let mortgage_size = py_sub asset_value down_payment in
        and_then (getitem (financing self) ''closing_cost'') (\<lambda>closing_cost.
        let initial_cost = py_add (py_mul mortgage_size closing_cost) down_payment in
        and_then (py_div down_payment asset_value) (\<lambda>percent_down.
        and_then (py_div (pmi mortgage_size percent_down) (PyInt 12)) (\<lambda>pmi_payment.
        and_then (getitem (financing self) ''interest_rate'') (\<lambda>interest_rate.
        and_then (pmt (val interest_rate / 12) (12 * 30) (val mortgage_size)) (\<lambda>p.
        let mortgage_payment = py_abs p in
        and_then (getitem (asset self) ''tax_rate'') (\<lambda>tax_rate.
        and_then (py_div (py_mul asset_value tax_rate) (PyInt 12)) (\<lambda>tax_payment.
        and_then (py_div (py_mul (PyFloat 0.0035) asset_value) (PyInt 12)) (\<lambda>insurance_cost.
        and_then (getitem (asset self) ''hoa'') (\<lambda>hoa.
        Inr [''initial_cost'' \<mapsto> initial_cost,
             ''closing_cost'' \<mapsto> py_sub initial_cost down_payment,
             ''down_payment_cost'' \<mapsto> down_payment,
             ''percent_down'' \<mapsto> percent_down,
             ''mortgage_size'' \<mapsto> mortgage_size,
             ''mortgage_payment'' \<mapsto> mortgage_payment,
             ''pmi_payment'' \<mapsto> pmi_payment,
             ''tax_payment'' \<mapsto> tax_payment,
             ''insurance_payment'' \<mapsto> insurance_cost,
             ''hoa'' \<mapsto> hoa,
             ''monthly_payment'' \<mapsto>
                py_add (py_add (py_add (py_add mortgage_payment pmi_payment) tax_payment)
                          insurance_cost) hoa]))))))))))))"

section \<open>class MortgageModel\<close>

text \<open>
  A \<open>MortgageModel\<close> object holds one attribute, \<open>self.financing\<close>; the methods below take
  that dict as their first argument.
\<close>

definition loadRestrictions :: "dict \<Rightarrow> error + dict" where
  "loadRestrictions restrictions =
     (case restrictions ''savings'' of
        None \<Rightarrow> Inl (ValueError Savings_unset)
      | Some savings \<Rightarrow>
          if val savings < 10000 then Inl (ValueError Savings_too_low)
          else if ''max_monthly_payment'' \<notin> dom restrictions \<and> ''max_mortgage'' \<notin> dom restrictions
          then Inl (ValueError No_constraints)
          else
            let r1 = (if ''max_monthly_payment'' \<in> dom restrictions then restrictions
                      else restrictions(''max_monthly_payment'' \<mapsto> PyInt 999999999999999999));
                r2 = (if ''max_mortgage'' \<in> dom r1 then r1
                      else r1(''max_mortgage'' \<mapsto> PyInt 999999999999999999));
                r3 = (if ''hoa'' \<in> dom r2 then r2 else r2(''hoa'' \<mapsto> PyInt 0));
                r4 = (if ''tax_rate'' \<in> dom r3 then r3 else r3(''tax_rate'' \<mapsto> PyFloat 0.0125))
            in Inr r4)"

definition loadFinancing :: "dict \<Rightarrow> error + dict" where
  "loadFinancing self_financing =
     (if ''interest_rate'' \<in> dom self_financing then
        let f1 = (if ''mortgage_term'' \<in> dom self_financing then self_financing
                  else self_financing(''mortgage_term'' \<mapsto> PyInt (30 * 12)));
            f2 = (if ''closing_cost'' \<in> dom f1 then f1 else f1(''closing_cost'' \<mapsto> PyFloat 0.05));
            f3 = (if ''down_payment'' \<in> dom f2 then f2 else f2(''down_payment'' \<mapsto> PyInt 0))
        in Inr f3
      else Inl (ValueError Interest_rate_unset))"

definition getMortgage :: "dict \<Rightarrow> pynum \<Rightarrow> dict \<Rightarrow> error + Mortgage" where
  "getMortgage self_financing hv restrictions =
     and_then (loadFinancing self_financing) (\<lambda>fin0.
     and_then (loadRestrictions restrictions) (\<lambda>r.
     and_then (getitem r ''savings'') (\<lambda>savings.
     and_then (getitem fin0 ''closing_cost'') (\<lambda>closing_cost.
     and_then (py_div (py_sub savings hv) (py_sub closing_cost (PyInt 1))) (\<lambda>q.
     let fin = fin0(''down_payment'' \<mapsto> py_sub hv q) in
     and_then (getitem fin ''down_payment'') (\<lambda>down_payment.
     if val down_payment < 0 then Inr (Mortgage_new (PyInt 0) Map.empty Map.empty)
     else
       and_then (getitem r ''tax_rate'') (\<lambda>tax_rate.
       and_then (getitem r ''hoa'') (\<lambda>hoa.
       Inr (Mortgage_new hv fin
              [''current_value'' \<mapsto> hv, ''tax_rate'' \<mapsto> tax_rate, ''hoa'' \<mapsto> hoa])))))))))"

text \<open>The dict \<open>best_value\<close> of \<open>optimizeTotalHomeValue\<close>, keys "value", "mortgage", "cost".\<close>

record best_value =
  bv_value :: pynum
  bv_mortgage :: Mortgage
  bv_cost :: dict

text \<open>The \<open>best_value\<close> every call starts from.\<close>

definition best_initial :: best_value where
  "best_initial =
     \<lparr>bv_value = PyInt 0,
      bv_mortgage = Mortgage_new (PyInt 0) Map.empty Map.empty,
      bv_cost = [''monthly_payment'' \<mapsto> PyInt 0]\<rparr>"

text \<open>
  The body of the inner loop \<open>for i in numpy.arange(0.05, 1.01, 0.001)\<close>, on the state
  \<open>(best_value, found_a_match)\<close>.  The loop variable \<open>i\<close> does not occur in the body.
\<close>

definition sweep_body ::
  "dict \<Rightarrow> dict \<Rightarrow> pynum \<Rightarrow> best_value \<times> bool \<Rightarrow> error + (best_value \<times> bool)" where
  "sweep_body self_financing restrictions j st =
     and_then (getMortgage self_financing j restrictions) (\<lambda>mortgage.
     if isValid mortgage then
       and_then (cost mortgage) (\<lambda>c.
       and_then (getitem c ''monthly_payment'') (\<lambda>monthly_payment.
       and_then (getitem restrictions ''max_monthly_payment'') (\<lambda>max_monthly_payment.
       and_then (getitem c ''initial_cost'') (\<lambda>initial_cost.
       and_then (getitem restrictions ''savings'') (\<lambda>savings.
       and_then (getitem c ''mortgage_size'') (\<lambda>mortgage_size.
       and_then (getitem restrictions ''max_mortgage'') (\<lambda>max_mortgage.
       and_then (getitem (bv_cost (fst st)) ''monthly_payment'') (\<lambda>best_monthly_payment.
       let low_enough_monthly_payment = (val monthly_payment \<le> val max_monthly_payment);
           have_enough_funds = (val initial_cost \<le> val savings);
           is_mortgage_too_big = (val mortgage_size > val max_mortgage);
           is_same_value = (val j = val (bv_value (fst st)));
           is_lower_monthly_payment = (val monthly_payment < val best_monthly_payment)
       in if is_mortgage_too_big then Inr st
          else if (low_enough_monthly_payment \<and> have_enough_funds)
                  \<or> (is_same_value \<and> is_lower_monthly_payment)
          then (if val j > val (bv_value (fst st))
                then Inr (\<lparr>bv_value = j, bv_mortgage = mortgage, bv_cost = c\<rparr>, True)
                else Inr st)
          else Inr st))))))))
     else Inr st)"

primrec sweep_loop ::
  "dict \<Rightarrow> dict \<Rightarrow> pynum \<Rightarrow> pynum list \<Rightarrow> best_value \<times> bool \<Rightarrow> error + (best_value \<times> bool)" where
  "sweep_loop self_financing restrictions j [] st = Inr st"
| "sweep_loop self_financing restrictions j (i # is) st =
     and_then (sweep_body self_financing restrictions j st)
              (sweep_loop self_financing restrictions j is)"

definition percent_down_sweep :: "pynum list" where
  "percent_down_sweep = arange (PyFloat 0.05) (PyFloat 1.01) (PyFloat 0.001)"

text \<open>
  The outer loop \<open>for j in numpy.arange(lower_bound, upper_bound, step)\<close> on the state
  \<open>(best_value, upper_bound)\<close>, for a given inner sweep: \<open>found_a_match\<close> starts at
  \<open>False\<close> for every \<open>j\<close>, and a \<open>j\<close> without a match sets \<open>upper_bound = j\<close> and breaks.
\<close>

primrec search_loop ::
  "pynum list \<Rightarrow> dict \<Rightarrow> dict \<Rightarrow> pynum list \<Rightarrow> best_value \<times> pynum \<Rightarrow> error + (best_value \<times> pynum)" where
  "search_loop sweep self_financing restrictions [] st = Inr st"
| "search_loop sweep self_financing restrictions (j # js) st =
     and_then (sweep_loop self_financing restrictions j sweep (fst st, False)) (\<lambda>r.
     if snd r then search_loop sweep self_financing restrictions js (fst r, snd st)
     else Inr (fst r, j))"

text \<open>
  \<open>optimizeTotalHomeValue(restrictions, lower_bound, upper_bound, step)\<close>.  The first
  argument is the number of nested calls the interpreter still allows: Python raises
  \<open>RecursionError\<close> when the recursion limit is reached.  The inner sweep is a parameter of
  \<open>search\<close>; the method of the source is \<open>search\<close> at \<open>percent_down_sweep\<close>.
\<close>

fun search ::
  "pynum list \<Rightarrow> nat \<Rightarrow> dict \<Rightarrow> dict \<Rightarrow> pynum \<Rightarrow> pynum \<Rightarrow> pynum \<Rightarrow> error + Mortgage" where
  "search sweep 0 self_financing restrictions lower_bound upper_bound step = Inl RecursionError"
| "search sweep (Suc depth) self_financing restrictions lower_bound upper_bound step =
     and_then (loadRestrictions restrictions) (\<lambda>r.
     and_then (if lower_bound = PyInt 0
               then and_then (getitem r ''savings'') (\<lambda>savings.
                      Inr (savings, PyInt 9999999, PyInt 100000))
               else Inr (lower_bound, upper_bound, step)) (\<lambda>bounds.
     let lower = fst bounds;
         upper = fst (snd bounds);
         step1 = (if val (snd (snd bounds)) < 50 then PyInt 1 else snd (snd bounds))
     in and_then (search_loop sweep self_financing r (arange lower upper step1)
                    (best_initial, upper))
          (\<lambda>found.
            if step1 = PyInt 1 then Inr (bv_mortgage (fst found))
            else and_then (py_div step1 (PyInt 2)) (\<lambda>half.
                   search sweep depth self_financing r (bv_value (fst found)) (snd found) half))))"

definition optimizeTotalHomeValue ::
  "nat \<Rightarrow> dict \<Rightarrow> dict \<Rightarrow> pynum \<Rightarrow> pynum \<Rightarrow> pynum \<Rightarrow> error + Mortgage" where
  "optimizeTotalHomeValue = search percent_down_sweep"

text \<open>\<open>optimizeTotalHomeValue(restrictions)\<close>: the three defaults \<open>0\<close> of the signature.\<close>

definition optimize :: "nat \<Rightarrow> dict \<Rightarrow> dict \<Rightarrow> error + Mortgage" where
  "optimize depth self_financing restrictions =
     optimizeTotalHomeValue depth self_financing restrictions (PyInt 0) (PyInt 0) (PyInt 0)"

section \<open>The constructor on shared dicts\<close>

text \<open>
  \<open>Mortgage.__init__\<close> stores into the dict it is given and keeps a reference to it, and its
  defaults \<open>financing = {}\<close> and \<open>asset = {}\<close> are two dict objects made once, when the
  \<open>def\<close> is executed.  Here a dict lives in a store at an address, an object holds
  addresses, and the constructor returns the store it leaves behind.
\<close>

type_synonym addr = nat
type_synonym store = "addr \<Rightarrow> dict"

record Mortgage_object =
  obj_home_value :: pynum
  obj_financing :: addr
  obj_asset :: addr

definition Mortgage_init :: "store \<Rightarrow> pynum \<Rightarrow> addr \<Rightarrow> addr \<Rightarrow> store \<times> Mortgage_object" where
  "Mortgage_init h hv fin_ref asset_ref =
     (h(asset_ref := asset_defaults hv (h asset_ref)),
      \<lparr>obj_home_value = hv, obj_financing = fin_ref, obj_asset = asset_ref\<rparr>)"

text \<open>The addresses of the two default dicts of the signature.\<close>

definition default_financing :: addr where
  "default_financing = 0"

definition default_asset :: addr where
  "default_asset = 1"

text \<open>\<open>Mortgage(hv)\<close>: both dict parameters left to their defaults.\<close>

definition Mortgage_init_defaults :: "store \<Rightarrow> pynum \<Rightarrow> store \<times> Mortgage_object" where
  "Mortgage_init_defaults h hv = Mortgage_init h hv default_financing default_asset"

text \<open>What the methods of an object read: its attributes through the store.\<close>

definition deref :: "store \<Rightarrow> Mortgage_object \<Rightarrow> Mortgage" where
  "deref h obj =
     \<lparr>home_value = obj_home_value obj,
      financing = h (obj_financing obj),
      asset = h (obj_asset obj)\<rparr>"

section \<open>Reference notions and sample inputs\<close>

text \<open>
  The level payment of a fixed-rate loan of principal \<open>pv\<close> over \<open>n\<close> periods at the
  periodic rate \<open>r\<close>, in closed form.
\<close>

definition annuity_payment :: "real \<Rightarrow> nat \<Rightarrow> real \<Rightarrow> real" where
  "annuity_payment r n pv =
     (if r = 0 then pv / real n else pv * r * (1 + r) ^ n / ((1 + r) ^ n - 1))"

text \<open>
  A mortgage is within the restrictions when its cost breakdown has a monthly payment of at
  most \<open>max_monthly_payment\<close>, an initial cost of at most \<open>savings\<close> and a mortgage
  size of at most \<open>max_mortgage\<close>.
\<close>

definition at_most :: "pynum option \<Rightarrow> pynum option \<Rightarrow> bool" where
  "at_most a b = (case a of None \<Rightarrow> False
                  | Some x \<Rightarrow> (case b of None \<Rightarrow> False | Some y \<Rightarrow> val x \<le> val y))"

definition within_restrictions :: "dict \<Rightarrow> Mortgage \<Rightarrow> bool" where
  "within_restrictions r m =
     (case cost m of
        Inl e \<Rightarrow> False
      | Inr c \<Rightarrow>
          at_most (c ''monthly_payment'') (r ''max_monthly_payment'') \<and>
          at_most (c ''initial_cost'') (r ''savings'') \<and>
          at_most (c ''mortgage_size'') (r ''max_mortgage''))"

text \<open>The state of the search is sound when its best mortgage, if valid, is within them.\<close>

definition winner_ok :: "dict \<Rightarrow> best_value \<Rightarrow> bool" where
  "winner_ok r b =
     (if isValid (bv_mortgage b) then within_restrictions r (bv_mortgage b) else True)"

text \<open>
  Restrictions fail the validation when they lack \<open>savings\<close>, or \<open>savings < 10000\<close>, or
  they supply neither \<open>max_monthly_payment\<close> nor \<open>max_mortgage\<close>.
\<close>

definition restrictions_invalid :: "dict \<Rightarrow> bool" where
  "restrictions_invalid x =
     (case x ''savings'' of
        None \<Rightarrow> True
      | Some s \<Rightarrow> val s < 10000 \<or> (x ''max_monthly_payment'' = None \<and> x ''max_mortgage'' = None))"

text \<open>The search with the inner sweep collapsed to one evaluation per candidate.\<close>

definition optimize_collapsed ::
  "nat \<Rightarrow> dict \<Rightarrow> dict \<Rightarrow> pynum \<Rightarrow> pynum \<Rightarrow> pynum \<Rightarrow> error + Mortgage" where
  "optimize_collapsed = search [PyFloat 0.05]"

text \<open>\<open>MortgageModel({"interest_rate": 0.06})\<close> and the restrictions of the spec's scenario.\<close>

definition financing_6 :: dict where
  "financing_6 = [''interest_rate'' \<mapsto> PyFloat 0.06]"

definition restrictions_50k :: dict where
  "restrictions_50k = [''savings'' \<mapsto> PyInt 50000, ''max_monthly_payment'' \<mapsto> PyInt 3000]"

text \<open>What \<open>loadRestrictions\<close> makes of them.\<close>

definition restrictions_50k_loaded :: dict where
  "restrictions_50k_loaded =
     restrictions_50k(''max_mortgage'' \<mapsto> PyInt 999999999999999999,
       ''hoa'' \<mapsto> PyInt 0, ''tax_rate'' \<mapsto> PyFloat 0.0125)"

text \<open>Restrictions no home meets: a monthly payment of at most 10.\<close>

definition restrictions_tight :: dict where
  "restrictions_tight = [''savings'' \<mapsto> PyInt 50000, ''max_monthly_payment'' \<mapsto> PyInt 10]"

definition restrictions_tight_loaded :: dict where
  "restrictions_tight_loaded =
     restrictions_tight(''max_mortgage'' \<mapsto> PyInt 999999999999999999,
       ''hoa'' \<mapsto> PyInt 0, ''tax_rate'' \<mapsto> PyFloat 0.0125)"

text \<open>The restrictions of the spec's savings-floor scenario.\<close>

definition restrictions_5k :: dict where
  "restrictions_5k = [''savings'' \<mapsto> PyInt 5000, ''max_mortgage'' \<mapsto> PyInt 100000]"

text \<open>Savings above the upper bound 9999999 of the first pass.\<close>

definition restrictions_rich :: dict where
  "restrictions_rich = [''savings'' \<mapsto> PyInt 10000000, ''max_mortgage'' \<mapsto> PyInt 500000]"

definition restrictions_rich_loaded :: dict where
  "restrictions_rich_loaded =
     restrictions_rich(''max_monthly_payment'' \<mapsto> PyInt 999999999999999999,
       ''hoa'' \<mapsto> PyInt 0, ''tax_rate'' \<mapsto> PyFloat 0.0125)"

text \<open>
  A store in which every dict is empty, and the store the call \<open>Mortgage(100000)\<close> leaves
  behind.
\<close>

definition store_empty :: store where
  "store_empty = (\<lambda>a. Map.empty)"

definition store_first :: store where
  "store_first =
     store_empty(default_asset :=
       [''current_value'' \<mapsto> PyInt 100000, ''tax_rate'' \<mapsto> PyFloat 0.01,
        ''hoa'' \<mapsto> PyInt 0])"

text \<open>A priced loan: 200000 of home value, 40000 down, 5 percent closing cost, 6 percent APR.\<close>

definition loan_terms :: dict where
  "loan_terms = [''down_payment'' \<mapsto> PyInt 40000, ''closing_cost'' \<mapsto> PyFloat 0.05,
                 ''interest_rate'' \<mapsto> PyFloat 0.06]"

section \<open>Lemmas and theorems\<close>


lemma and_then_Inl [simp]: "and_then (Inl e) f = Inl e"
  by (simp add: and_then_def)

lemma and_then_Inr [simp]: "and_then (Inr x) f = f x"
  by (simp add: and_then_def)

lemma and_then_eq_Inr:
  "and_then r f = Inr y \<longleftrightarrow> (\<exists>x. r = Inr x \<and> f x = Inr y)"
  by (cases r) simp_all

lemma getitem_eq_Inr [simp]: "getitem d k = Inr v \<longleftrightarrow> d k = Some v"
  by (simp add: getitem_def split: option.splits)

lemma and_then_weak_cong: "r = r' \<Longrightarrow> and_then r f = and_then r' f"
  by simp

lemma getitem_empty [simp]: "getitem Map.empty k = Inl (KeyError k)"
  by (simp add: getitem_def)

lemma getitem_upd [simp]:
  "getitem (d(k \<mapsto> v)) k' = (if k' = k then Inr v else getitem d k')"
  by (simp add: getitem_def)

lemma arith_num:
  "arith f g (PyInt x) (PyInt y) = PyInt (g x y)"
  "arith f g (PyInt x) (PyFloat b) = PyFloat (f (of_int x) b)"
  "arith f g (PyFloat a) (PyInt y) = PyFloat (f a (of_int y))"
  "arith f g (PyFloat a) (PyFloat b) = PyFloat (f a b)"
  "arith f g (NpScalar a) v = NpScalar (f a (val v))"
  "arith f g u (NpScalar b) = NpScalar (f (val u) b)"
  by (simp_all add: arith_def)

lemmas py_num = arith_num py_add_def py_sub_def py_mul_def

lemma py_abs_num:
  "py_abs (PyInt i) = PyInt \<bar>i\<bar>"
  "py_abs (PyFloat x) = PyFloat \<bar>x\<bar>"
  "py_abs (NpScalar x) = NpScalar \<bar>x\<bar>"
  by (simp_all add: py_abs_def)

lemma getitem_Some: "d k = Some v \<Longrightarrow> getitem d k = Inr v"
  by simp

lemma getitem_None: "d k = None \<Longrightarrow> getitem d k = Inl (KeyError k)"
  by (simp add: getitem_def)

lemma val_py_add [simp]: "val (py_add a b) = val a + val b"
  by (cases a; cases b) (simp_all add: py_add_def arith_def)

lemma val_py_sub [simp]: "val (py_sub a b) = val a - val b"
  by (cases a; cases b) (simp_all add: py_sub_def arith_def)

lemma val_py_mul [simp]: "val (py_mul a b) = val a * val b"
  by (cases a; cases b) (simp_all add: py_mul_def arith_def)

lemma val_py_abs [simp]: "val (py_abs a) = \<bar>val a\<bar>"
  by (cases a) (simp_all add: py_abs_def)

lemma py_div_eq_Inr: "py_div a b = Inr q \<Longrightarrow> val b \<noteq> 0 \<and> val q = val a / val b"
  by (auto simp: py_div_def split: if_splits)

lemma py_div_const:
  "val b \<noteq> 0 \<Longrightarrow> py_div a b = Inr ((if is_np a \<or> is_np b then NpScalar else PyFloat) (val a / val b))"
  by (simp add: py_div_def)


lemma py_div_by_int [simp]:
  "i \<noteq> 0 \<Longrightarrow> py_div a (PyInt i) = Inr ((if is_np a then NpScalar else PyFloat) (val a / of_int i))"
  by (simp add: py_div_def)

text \<open>
  C6.  Every cost breakdown computed for a mortgage whose home value is not the int \<open>0\<close>
  satisfies: \<open>mortgage_size = current_value - down_payment\<close>,
  \<open>percent_down = down_payment / current_value\<close>,
  \<open>closing_cost = initial_cost - down_payment\<close>, and \<open>monthly_payment\<close> is the sum, taken
  left to right, of the entries \<open>mortgage_payment\<close>, \<open>pmi_payment\<close>, \<open>tax_payment\<close>,
  \<open>insurance_payment\<close> and \<open>hoa\<close> of the same breakdown.
\<close>

theorem cost_breakdown_invariants:
  assumes "cost self = Inr c" and "home_value self \<noteq> PyInt 0"
  shows "\<exists>asset_value down_payment initial_cost mortgage_size percent_down
           mortgage_payment pmi_payment tax_payment insurance_payment hoa.
           asset self ''current_value'' = Some asset_value \<and>
           financing self ''down_payment'' = Some down_payment \<and>
           c ''mortgage_size'' = Some mortgage_size \<and>
           mortgage_size = py_sub asset_value down_payment \<and>
           c ''percent_down'' = Some percent_down \<and>
           py_div down_payment asset_value = Inr percent_down \<and>
           c ''initial_cost'' = Some initial_cost \<and>
           c ''closing_cost'' = Some (py_sub initial_cost down_payment) \<and>
           c ''mortgage_payment'' = Some mortgage_payment \<and>
           c ''pmi_payment'' = Some pmi_payment \<and>
           c ''tax_payment'' = Some tax_payment \<and>
           c ''insurance_payment'' = Some insurance_payment \<and>
           c ''hoa'' = Some hoa \<and>
           c ''monthly_payment'' =
             Some (py_add (py_add (py_add (py_add mortgage_payment pmi_payment) tax_payment)
                     insurance_payment) hoa)"
  using assms unfolding cost_def Let_def
  by (auto simp: and_then_eq_Inr)


lemma power_eq_one_real:
  fixes a :: real
  assumes "a ^ n = 1" "0 < n"
  shows "a = 1 \<or> a = -1"
proof -
  have "norm a = 1 \<or> n = 0" using assms(1) by (rule power_eq_1_iff)
  then have "\<bar>a\<bar> = 1" using assms(2) by simp
  then show ?thesis by (simp add: abs_if split: if_splits)
qed

lemma pmt_finite:
  assumes "rate \<noteq> -2" "0 < nper"
  shows "pmt rate nper pv =
           Inr (NpScalar (- (pv * (1 + rate) ^ nper) /
                  (if rate = 0 then real nper else ((1 + rate) ^ nper - 1) / rate)))"
proof (cases "rate = 0")
  case True
  then show ?thesis using assms by (simp add: pmt_def)
next
  case False
  have "(1 + rate) ^ nper \<noteq> 1"
  proof
    assume "(1 + rate) ^ nper = 1"
    then have "1 + rate = 1 \<or> 1 + rate = -1" using assms(2) by (rule power_eq_one_real)
    then show False using False assms(1) by auto
  qed
  then show ?thesis using False by (simp add: pmt_def Let_def)
qed

lemma pmt_abs_annuity:
  assumes "rate \<noteq> -2" "0 < nper" "pmt rate nper pv = Inr p"
  shows "\<bar>val p\<bar> = \<bar>annuity_payment rate nper pv\<bar>"
proof (cases "rate = 0")
  case True
  have "pmt 0 nper pv = Inr (NpScalar (- (pv * 1) / real nper))"
    using assms(2) by (simp add: pmt_def)
  then show ?thesis using assms(3) True by (auto simp: annuity_payment_def)
next
  case False
  define t where "t = (1 + rate) ^ nper"
  have "pmt rate nper pv = Inr (NpScalar (- (pv * t) / ((t - 1) / rate)))"
    using pmt_finite [OF assms(1,2), of pv] False by (simp add: t_def)
  then have p: "val p = - (pv * t) / ((t - 1) / rate)"
    using assms(3) by auto
  have "- (pv * t) / ((t - 1) / rate) = - (pv * rate * t / (t - 1))"
    by simp
  then have "\<bar>val p\<bar> = \<bar>pv * rate * t / (t - 1)\<bar>"
    unfolding p by (simp add: mult.commute mult.left_commute)
  then show ?thesis using False unfolding annuity_payment_def t_def by simp
qed


lemma loan_terms_cost:
  "\<exists>p. pmt (0.06 / 12) 360 160000 = Inr (NpScalar p) \<and>
     cost (Mortgage_new (PyInt 200000) loan_terms Map.empty) =
       Inr [''initial_cost'' \<mapsto> PyFloat 48000,
            ''closing_cost'' \<mapsto> PyFloat 8000,
            ''down_payment_cost'' \<mapsto> PyInt 40000,
            ''percent_down'' \<mapsto> PyFloat 0.2,
            ''mortgage_size'' \<mapsto> PyInt 160000,
            ''mortgage_payment'' \<mapsto> NpScalar \<bar>p\<bar>,
            ''pmi_payment'' \<mapsto> PyFloat 0,
            ''tax_payment'' \<mapsto> PyFloat (2000 / 12),
            ''insurance_payment'' \<mapsto> PyFloat (700 / 12),
            ''hoa'' \<mapsto> PyInt 0,
            ''monthly_payment'' \<mapsto> NpScalar (\<bar>p\<bar> + 0 + 2000 / 12 + 700 / 12 + 0)]"
proof -
  obtain p where p: "pmt (0.06 / 12) 360 160000 = Inr (NpScalar p)"
    using pmt_finite [of "0.06 / 12" 360 160000] by simp
  show ?thesis
    using p
    by (simp add: cost_def Mortgage_new_def asset_defaults_def loan_terms_def Let_def
        py_num pmi_def py_abs_num cong: and_then_weak_cong)
qed


lemma loan_terms_priced:
  "\<exists>c. cost (Mortgage_new (PyInt 200000) loan_terms Map.empty) = Inr c"
  using loan_terms_cost by blast

theorem cost_breakdown_invariants_witness:
  "\<exists>c. cost (Mortgage_new (PyInt 200000) loan_terms Map.empty) = Inr c \<and>
       home_value (Mortgage_new (PyInt 200000) loan_terms Map.empty) \<noteq> PyInt 0 \<and>
       c ''mortgage_size'' = Some (py_sub (PyInt 200000) (PyInt 40000)) \<and>
       (\<exists>mortgage_payment pmi_payment tax_payment insurance_payment hoa.
          c ''mortgage_payment'' = Some mortgage_payment \<and>
          c ''pmi_payment'' = Some pmi_payment \<and>
          c ''tax_payment'' = Some tax_payment \<and>
          c ''insurance_payment'' = Some insurance_payment \<and>
          c ''hoa'' = Some hoa \<and>
          c ''monthly_payment'' =
            Some (py_add (py_add (py_add (py_add mortgage_payment pmi_payment) tax_payment)
                    insurance_payment) hoa))"
proof -
  let ?m = "Mortgage_new (PyInt 200000) loan_terms Map.empty"
  obtain c where c: "cost ?m = Inr c"
    using loan_terms_priced by blast
  have nz: "home_value ?m \<noteq> PyInt 0"
    by (simp add: Mortgage_new_def)
  have a: "asset ?m ''current_value'' = Some (PyInt 200000)"
    by (simp add: Mortgage_new_def asset_defaults_def)
  have d: "financing ?m ''down_payment'' = Some (PyInt 40000)"
    by (simp add: Mortgage_new_def loan_terms_def)
  from cost_breakdown_invariants [OF c nz] a d c nz show ?thesis
    by (metis option.inject)
qed

text \<open>
  C7, amended.  For a mortgage size that is not negative, PMI does not increase when
  \<open>percent_down\<close> increases; for every mortgage size PMI is the int \<open>0\<close> once
  \<open>percent_down \<ge> 0.20\<close>; and the thresholds are inclusive: at exactly 0.15, 0.10 and
  0.05 the annual PMI is the mortgage size times 0.0044, 0.0059 and 0.0076.
\<close>

theorem pmi_tiers:
  "(0 \<le> val mortgage_size \<and> val p1 \<le> val p2
      \<longrightarrow> val (pmi mortgage_size p2) \<le> val (pmi mortgage_size p1)) \<and>
   (0.2 \<le> val p \<longrightarrow> pmi mortgage_size p = PyInt 0) \<and>
   (val p = 0.2 \<longrightarrow> pmi mortgage_size p = PyInt 0) \<and>
   (val p = 0.15 \<longrightarrow> pmi mortgage_size p = py_mul mortgage_size (PyFloat 0.0044)) \<and>
   (val p = 0.1 \<longrightarrow> pmi mortgage_size p = py_mul mortgage_size (PyFloat 0.0059)) \<and>
   (val p = 0.05 \<longrightarrow> pmi mortgage_size p = py_mul mortgage_size (PyFloat 0.0076))"
proof -
  have mono: "val (pmi mortgage_size p2) \<le> val (pmi mortgage_size p1)"
    if "0 \<le> val mortgage_size" "val p1 \<le> val p2"
  proof -
    have "val mortgage_size * 0.0044 \<le> val mortgage_size * 0.0059"
      "val mortgage_size * 0.0059 \<le> val mortgage_size * 0.0076"
      "val mortgage_size * 0.0076 \<le> val mortgage_size * 0.0098"
      "0 \<le> val mortgage_size * 0.0044"
      using that(1) by (simp_all add: mult_left_mono)
    then show ?thesis
      using that(2) by (simp add: pmi_def) 
  qed
  show ?thesis using mono by (simp add: pmi_def)
qed

theorem pmi_tiers_witness:
  "0 \<le> val (PyInt 200000) \<and> val (PyFloat 0.1) \<le> val (PyFloat 0.12) \<and>
   val (pmi (PyInt 200000) (PyFloat 0.12)) \<le> val (pmi (PyInt 200000) (PyFloat 0.1)) \<and>
   0.2 \<le> val (PyFloat 0.25) \<and> pmi (PyInt 200000) (PyFloat 0.25) = PyInt 0 \<and>
   pmi (PyInt 200000) (PyFloat 0.2) = PyInt 0 \<and>
   pmi (PyInt 200000) (PyFloat 0.15) = PyFloat (200000 * 0.0044) \<and>
   pmi (PyInt 200000) (PyFloat 0.1) = PyFloat (200000 * 0.0059) \<and>
   pmi (PyInt 200000) (PyFloat 0.05) = PyFloat (200000 * 0.0076)"
  using pmi_tiers [of "PyInt 200000" "PyFloat 0.1" "PyFloat 0.12" "PyFloat 0.25"]
    pmi_tiers [of "PyInt 200000" _ _ "PyFloat 0.2"]
    pmi_tiers [of "PyInt 200000" _ _ "PyFloat 0.15"]
    pmi_tiers [of "PyInt 200000" _ _ "PyFloat 0.1"]
    pmi_tiers [of "PyInt 200000" _ _ "PyFloat 0.05"]
  by (simp add: py_num)

text \<open>
  With a negative mortgage size the order is reversed: at \<open>-100000\<close> the PMI of 20 percent
  down is 0 and that of 10 percent down is \<open>-590\<close>.
\<close>

theorem pmi_negative_size_counterexample:
  "val (PyFloat 0.1) \<le> val (PyFloat 0.2) \<and>
   \<not> val (pmi (PyInt (- 100000)) (PyFloat 0.2)) \<le> val (pmi (PyInt (- 100000)) (PyFloat 0.1))"
  by (simp add: pmi_def py_num)


lemma annuity_180_360:
  fixes r :: real
  assumes "0 < r" "0 < pv"
  shows "annuity_payment r 360 pv < annuity_payment r 180 pv"
proof -
  define x where "x = (1 + r) ^ 180"
  have x1: "1 < x" unfolding x_def using assms(1) by (simp add: one_less_power)
  have sq: "(1 + r) ^ 360 = x * x"
    unfolding x_def by (simp add: power_add [symmetric])
  have "x * x / (x * x - 1) < x / (x - 1)"
  proof -
    have "1 < x * x" using x1 by (simp add: less_1_mult)
    then have pos: "0 < x - 1" "0 < x * x - 1"
      using x1 by simp_all
    have "x * x * (x - 1) < x * (x * x - 1)"
      using x1 by (simp add: algebra_simps)
    then show ?thesis using pos by (simp add: divide_less_eq less_divide_eq mult.commute)
  qed
  moreover have "0 < pv * r" using assms by simp
  ultimately have "pv * r * (x * x / (x * x - 1)) < pv * r * (x / (x - 1))"
    by (rule mult_strict_left_mono)
  then show ?thesis using assms(1) by (simp add: annuity_payment_def sq x_def [symmetric])
qed


text \<open>
  C4.  With \<open>mortgage_term = 180\<close> in the financing, \<open>cost()\<close> still prices 360
  payments: for a loan of 160000 at 6 percent its \<open>mortgage_payment\<close> is the annuity
  payment over 360 months and differs from the one over 180 months.
\<close>

theorem cost_ignores_mortgage_term:
  "financing (Mortgage_new (PyInt 200000) (loan_terms(''mortgage_term'' \<mapsto> PyInt 180)) Map.empty)
     ''mortgage_term'' = Some (PyInt 180) \<and>
   (\<exists>c p. cost (Mortgage_new (PyInt 200000) (loan_terms(''mortgage_term'' \<mapsto> PyInt 180)) Map.empty)
            = Inr c \<and>
          c ''mortgage_size'' = Some (PyInt 160000) \<and>
          c ''mortgage_payment'' = Some p \<and>
          val p = \<bar>annuity_payment (0.06 / 12) 360 160000\<bar> \<and>
          val p \<noteq> \<bar>annuity_payment (0.06 / 12) 180 160000\<bar>)"
proof -
  let ?m = "Mortgage_new (PyInt 200000) (loan_terms(''mortgage_term'' \<mapsto> PyInt 180)) Map.empty"
  obtain q where q: "pmt (0.06 / 12) 360 160000 = Inr (NpScalar q)"
    using pmt_finite [of "0.06 / 12" 360 160000] by simp
  have abs_q: "\<bar>q\<bar> = \<bar>annuity_payment (0.06 / 12) 360 160000\<bar>"
    using pmt_abs_annuity [OF _ _ q] by simp
  have "annuity_payment (0.06 / 12) 360 160000 < annuity_payment (0.06 / 12) 180 160000"
    by (rule annuity_180_360) simp_all
  moreover have "0 \<le> annuity_payment (0.06 / 12) 360 160000"
    by (simp add: annuity_payment_def)
  ultimately have ne: "\<bar>q\<bar> \<noteq> \<bar>annuity_payment (0.06 / 12) 180 160000\<bar>"
    using abs_q by linarith
  have "\<exists>c. cost ?m = Inr c \<and> c ''mortgage_size'' = Some (PyInt 160000) \<and>
          c ''mortgage_payment'' = Some (NpScalar \<bar>q\<bar>)"
    using q
    by (simp add: cost_def Mortgage_new_def asset_defaults_def loan_terms_def Let_def
        py_num pmi_def py_abs_num cong: and_then_weak_cong)
  moreover have "financing ?m ''mortgage_term'' = Some (PyInt 180)"
    by (simp add: Mortgage_new_def)
  ultimately show ?thesis using abs_q ne by auto
qed

text \<open>
  C10.  The constructor stores into the dict it is given: after it, the dict at the
  caller's address holds \<open>current_value\<close>, \<open>tax_rate\<close> and \<open>hoa\<close>, and a
  \<open>current_value\<close> that was absent is the home value of this call.  Two constructions
  that leave both dict parameters to their defaults share the same two dicts, so the second
  object reads the \<open>current_value\<close> written by the first, not its own home value.
\<close>

theorem Mortgage_init_shares_dicts:
  "(Mortgage_init h hv f a = (h', obj) \<longrightarrow>
      obj_asset obj = a \<and> h' a = asset_defaults hv (h a) \<and>
      {''current_value'', ''tax_rate'', ''hoa''} \<subseteq> dom (h' a) \<and>
      (''current_value'' \<notin> dom (h a) \<longrightarrow> h' a ''current_value'' = Some hv \<and> h' a \<noteq> h a)) \<and>
   (''current_value'' \<notin> dom (h default_asset) \<and>
    Mortgage_init_defaults h hva = (ha, ma) \<and> Mortgage_init_defaults ha hvb = (hb, mb) \<longrightarrow>
      obj_asset ma = obj_asset mb \<and> obj_financing ma = obj_financing mb \<and>
      home_value (deref hb mb) = hvb \<and>
      asset (deref hb mb) ''current_value'' = Some hva \<and>
      asset (deref hb ma) = asset (deref hb mb))"
proof -
  have dom3: "{''current_value'', ''tax_rate'', ''hoa''} \<subseteq> dom (asset_defaults v d)" for v d
    by (auto simp: asset_defaults_def Let_def)
  have first: "d ''current_value'' = None \<Longrightarrow> asset_defaults v d ''current_value'' = Some v" for v d
    by (auto simp: asset_defaults_def Let_def)
  have kept: "d ''current_value'' = Some w \<Longrightarrow> asset_defaults v d ''current_value'' = Some w" for v w d
    by (auto simp: asset_defaults_def Let_def)
  have one: "Mortgage_init h hv f a = (h', obj) \<Longrightarrow>
      obj_asset obj = a \<and> h' a = asset_defaults hv (h a) \<and>
      {''current_value'', ''tax_rate'', ''hoa''} \<subseteq> dom (h' a) \<and>
      (''current_value'' \<notin> dom (h a) \<longrightarrow> h' a ''current_value'' = Some hv \<and> h' a \<noteq> h a)"
    using dom3 [of hv "h a"] first [of "h a" hv]
    by (auto simp: Mortgage_init_def domIff)
  have two: "obj_asset ma = obj_asset mb \<and> obj_financing ma = obj_financing mb \<and>
      home_value (deref hb mb) = hvb \<and>
      asset (deref hb mb) ''current_value'' = Some hva \<and>
      asset (deref hb ma) = asset (deref hb mb)"
    if "''current_value'' \<notin> dom (h default_asset)"
      "Mortgage_init_defaults h hva = (ha, ma)" "Mortgage_init_defaults ha hvb = (hb, mb)"
    using that first [of "h default_asset" hva]
      kept [of "asset_defaults hva (h default_asset)" hva hvb]
    by (auto simp: Mortgage_init_defaults_def Mortgage_init_def deref_def domIff)
  show ?thesis using one two by blast
qed

lemma Mortgage_init_fresh:
  "fin_ref \<noteq> asset_ref \<Longrightarrow>
   deref (fst (Mortgage_init h hv fin_ref asset_ref)) (snd (Mortgage_init h hv fin_ref asset_ref))
     = Mortgage_new hv (h fin_ref) (h asset_ref)"
  by (simp add: Mortgage_init_def deref_def Mortgage_new_def)

lemma Mortgage_init_first:
  "Mortgage_init_defaults store_empty (PyInt 100000) =
     (store_first,
      \<lparr>obj_home_value = PyInt 100000, obj_financing = default_financing,
         obj_asset = default_asset\<rparr>)"
  by (simp add: Mortgage_init_defaults_def Mortgage_init_def store_first_def store_empty_def
      asset_defaults_def)

lemma Mortgage_init_second:
  "Mortgage_init_defaults store_first (PyInt 200000) =
     (store_first,
      \<lparr>obj_home_value = PyInt 200000, obj_financing = default_financing,
         obj_asset = default_asset\<rparr>)"
  by (simp add: Mortgage_init_defaults_def Mortgage_init_def store_first_def store_empty_def
      asset_defaults_def)

theorem Mortgage_init_shares_dicts_witness:
  "''current_value'' \<notin> dom (store_empty default_asset) \<and>
   Mortgage_init_defaults store_empty (PyInt 100000) =
     (store_first,
      \<lparr>obj_home_value = PyInt 100000, obj_financing = default_financing,
         obj_asset = default_asset\<rparr>) \<and>
   store_first default_asset ''current_value'' = Some (PyInt 100000) \<and>
   store_first default_asset \<noteq> store_empty default_asset \<and>
   Mortgage_init_defaults store_first (PyInt 200000) =
     (store_first,
      \<lparr>obj_home_value = PyInt 200000, obj_financing = default_financing,
         obj_asset = default_asset\<rparr>) \<and>
   home_value (deref store_first
      \<lparr>obj_home_value = PyInt 200000, obj_financing = default_financing,
         obj_asset = default_asset\<rparr>) = PyInt 200000 \<and>
   asset (deref store_first
      \<lparr>obj_home_value = PyInt 200000, obj_financing = default_financing,
         obj_asset = default_asset\<rparr>) ''current_value'' = Some (PyInt 100000)"
proof -
  have none: "''current_value'' \<notin> dom (store_empty default_asset)"
    by (simp add: store_empty_def)
  note inst = Mortgage_init_shares_dicts
    [where h = store_empty and hv = "PyInt 100000" and f = default_financing
       and a = default_asset and h' = store_first and hva = "PyInt 100000"
       and ha = store_first and hvb = "PyInt 200000" and hb = store_first
       and obj = "\<lparr>obj_home_value = PyInt 100000, obj_financing = default_financing,
                     obj_asset = default_asset\<rparr>"
       and ma = "\<lparr>obj_home_value = PyInt 100000, obj_financing = default_financing,
                    obj_asset = default_asset\<rparr>"
       and mb = "\<lparr>obj_home_value = PyInt 200000, obj_financing = default_financing,
                    obj_asset = default_asset\<rparr>"]
  have init: "Mortgage_init store_empty (PyInt 100000) default_financing default_asset =
     (store_first,
      \<lparr>obj_home_value = PyInt 100000, obj_financing = default_financing,
         obj_asset = default_asset\<rparr>)"
    using Mortgage_init_first by (simp add: Mortgage_init_defaults_def)
  have one: "store_first default_asset ''current_value'' = Some (PyInt 100000)"
    "store_first default_asset \<noteq> store_empty default_asset"
    using inst [THEN conjunct1, THEN mp, OF init] none
    by blast+
  have two: "home_value (deref store_first
      \<lparr>obj_home_value = PyInt 200000, obj_financing = default_financing,
         obj_asset = default_asset\<rparr>) = PyInt 200000"
    "asset (deref store_first
      \<lparr>obj_home_value = PyInt 200000, obj_financing = default_financing,
         obj_asset = default_asset\<rparr>) ''current_value'' = Some (PyInt 100000)"
    using inst [THEN conjunct2, THEN mp, OF conjI [OF none conjI
        [OF Mortgage_init_first Mortgage_init_second]]]
    by blast+
  show ?thesis
    using none Mortgage_init_first Mortgage_init_second one two by simp
qed


lemma loadRestrictions_Inr:
  assumes "loadRestrictions x = Inr r"
  shows "\<exists>s mp mm h t. x ''savings'' = Some s \<and> r ''savings'' = Some s \<and> 10000 \<le> val s \<and>
           r ''max_monthly_payment'' = Some mp \<and> r ''max_mortgage'' = Some mm \<and>
           r ''hoa'' = Some h \<and> r ''tax_rate'' = Some t"
  using assms unfolding loadRestrictions_def Let_def
  by (auto split: option.splits if_splits)

lemma loadFinancing_Inr:
  assumes "loadFinancing f = Inr fin"
  shows "\<exists>ir cc dp. f ''interest_rate'' = Some ir \<and> fin ''interest_rate'' = Some ir \<and>
           fin ''closing_cost'' = Some cc \<and> fin ''down_payment'' = Some dp"
  using assms unfolding loadFinancing_def Let_def
  by (auto split: if_splits)





lemma load_restrictions_50k:
  "loadRestrictions restrictions_50k = Inr restrictions_50k_loaded"
  by (simp add: loadRestrictions_def restrictions_50k_def restrictions_50k_loaded_def)

lemma load_financing_6:
  "loadFinancing financing_6 =
     Inr (financing_6(''mortgage_term'' \<mapsto> PyInt 360, ''closing_cost'' \<mapsto> PyFloat 0.05,
            ''down_payment'' \<mapsto> PyInt 0))"
  by (simp add: loadFinancing_def financing_6_def)




lemma sweep_body_again:
  assumes "sweep_body f r j st = Inr st'"
  shows "sweep_body f r j st' = Inr st'"
proof -
  obtain m where m: "getMortgage f j r = Inr m"
    using assms unfolding sweep_body_def by (auto simp: and_then_eq_Inr)
  show ?thesis
  proof (cases "isValid m")
    case False
    then show ?thesis using assms m by (simp add: sweep_body_def)
  next
    case True
    from assms m True obtain c mp mmp ic s ms mm bmp where
      vals: "cost m = Inr c" "c ''monthly_payment'' = Some mp"
        "r ''max_monthly_payment'' = Some mmp" "c ''initial_cost'' = Some ic"
        "r ''savings'' = Some s" "c ''mortgage_size'' = Some ms"
        "r ''max_mortgage'' = Some mm"
        "bv_cost (fst st) ''monthly_payment'' = Some bmp"
      unfolding sweep_body_def by (auto simp: and_then_eq_Inr)
    have body: "sweep_body f r j x =
        and_then (getitem (bv_cost (fst x)) ''monthly_payment'') (\<lambda>b.
          if val ms > val mm then Inr x
          else if (val mp \<le> val mmp \<and> val ic \<le> val s)
                  \<or> (val j = val (bv_value (fst x)) \<and> val mp < val b)
          then (if val j > val (bv_value (fst x))
                then Inr (\<lparr>bv_value = j, bv_mortgage = m, bv_cost = c\<rparr>, True)
                else Inr x)
          else Inr x)" for x
      unfolding sweep_body_def using m True vals(1-7)
      by (simp add: getitem_Some Let_def)
    have "st' = st \<or> st' = (\<lparr>bv_value = j, bv_mortgage = m, bv_cost = c\<rparr>, True)"
      using assms vals(8) unfolding body by (auto simp: getitem_Some split: if_splits)
    then show ?thesis
    proof
      assume "st' = st"
      then show ?thesis using assms by simp
    next
      assume "st' = (\<lparr>bv_value = j, bv_mortgage = m, bv_cost = c\<rparr>, True)"
      then show ?thesis unfolding body using vals(2) by (simp add: getitem_Some)
    qed
  qed
qed

lemma sweep_loop_fixed:
  "sweep_body f r j st = Inr st \<Longrightarrow> sweep_loop f r j is st = Inr st"
  by (induction "is") simp_all

lemma sweep_loop_collapse:
  "sweep_loop f r j (i # is) st = sweep_body f r j st"
proof (cases "sweep_body f r j st")
  case (Inl e)
  then show ?thesis by simp
next
  case (Inr st')
  then show ?thesis
    using sweep_loop_fixed [OF sweep_body_again [OF Inr]] by simp
qed

lemma search_loop_collapse:
  "search_loop (i # is) f r js st = search_loop [i'] f r js st"
  by (induction js arbitrary: st) (simp_all only: search_loop.simps sweep_loop_collapse)

lemma search_collapse:
  "search (i # is) depth f r lo up step = search [i'] depth f r lo up step"
proof (induction depth arbitrary: r lo up step)
  case 0
  show ?case by simp
next
  case (Suc depth)
  show ?case
    unfolding search.simps search_loop_collapse [of i "is" _ _ _ _ i'] Suc.IH ..
qed

lemma percent_down_sweep_length: "length percent_down_sweep = 960"
  by (simp add: percent_down_sweep_def arange_def)

lemma percent_down_sweep_Cons: "\<exists>i is. percent_down_sweep = i # is"
  using percent_down_sweep_length by (cases percent_down_sweep) auto

lemma arange_Cons:
  assumes "val start < val stop" and "0 < val step"
  shows "\<exists>js. arange start stop step = NpScalar (val start) # js"
proof -
  have "0 < (val stop - val start) / val step"
    using assms by simp
  then have "0 < nat \<lceil>(val stop - val start) / val step\<rceil>"
    by simp
  then have "[0 ..< nat \<lceil>(val stop - val start) / val step\<rceil>]
               = 0 # [Suc 0 ..< nat \<lceil>(val stop - val start) / val step\<rceil>]"
    by (simp add: upt_conv_Cons)
  then show ?thesis by (simp add: arange_def)
qed

lemma arange_empty:
  "val stop \<le> val start \<Longrightarrow> 0 < val step \<Longrightarrow> arange start stop step = []"
  by (simp add: arange_def divide_le_0_iff)

lemma pmt_zero: "rate \<noteq> - 2 \<Longrightarrow> 0 < nper \<Longrightarrow> pmt rate nper 0 = Inr (NpScalar 0)"
  by (simp add: pmt_finite)

lemma loadRestrictions_idem:
  assumes "loadRestrictions x = Inr r"
  shows "loadRestrictions r = Inr r"
proof -
  obtain s mp mm h t where k: "r ''savings'' = Some s" "10000 \<le> val s"
    "r ''max_monthly_payment'' = Some mp" "r ''max_mortgage'' = Some mm"
    "r ''hoa'' = Some h" "r ''tax_rate'' = Some t"
    using loadRestrictions_Inr [OF assms] by blast
  then show ?thesis
    by (simp add: loadRestrictions_def domI)
qed

lemmas run_simps =
  getMortgage_def cost_def Mortgage_new_def asset_defaults_def isValid_def Let_def
  py_num pmi_def py_abs_num py_div_def pmt_zero

lemma sweep_body_50000:
  "\<exists>b. sweep_body financing_6 restrictions_50k_loaded (NpScalar 50000) (best_initial, False)
         = Inr (b, True) \<and>
       bv_value b = NpScalar 50000 \<and> isValid (bv_mortgage b)"
  unfolding sweep_body_def
  apply (simp add: run_simps loadRestrictions_def loadFinancing_def financing_6_def
      restrictions_50k_loaded_def restrictions_50k_def best_initial_def
      cong: and_then_weak_cong)
  done


text \<open>
  C9.  The search gives the same result with the inner sweep collapsed to one evaluation per
  candidate: the whole sweep over \<open>numpy.arange(0.05, 1.01, 0.001)\<close> equals one run of its
  body, because a second run of the body on the state the first one left changes nothing,
  neither \<open>best_value\<close> nor \<open>found_a_match\<close>, and raises nothing.
\<close>

theorem inner_sweep_collapses:
  "optimizeTotalHomeValue depth f restrictions lo up step
     = optimize_collapsed depth f restrictions lo up step \<and>
   sweep_loop f r j percent_down_sweep st = sweep_body f r j st \<and>
   (sweep_body f r j st = Inr st' \<longrightarrow> sweep_loop f r j sweep st' = Inr st')"
proof -
  obtain i0 is0 where sw: "percent_down_sweep = i0 # is0"
    using percent_down_sweep_Cons by blast
  have "optimizeTotalHomeValue depth f restrictions lo up step
          = optimize_collapsed depth f restrictions lo up step"
    unfolding optimizeTotalHomeValue_def optimize_collapsed_def sw
    by (rule search_collapse)
  moreover have "sweep_loop f r j percent_down_sweep st = sweep_body f r j st"
    unfolding sw by (rule sweep_loop_collapse)
  moreover have "sweep_loop f r j sweep st' = Inr st'" if "sweep_body f r j st = Inr st'"
    using sweep_loop_fixed [OF sweep_body_again [OF that]] .
  ultimately show ?thesis by blast
qed

theorem inner_sweep_collapses_witness:
  "\<exists>b. sweep_body financing_6 restrictions_50k_loaded (NpScalar 50000) (best_initial, False)
         = Inr (b, True) \<and>
       bv_value b = NpScalar 50000 \<and>
       sweep_loop financing_6 restrictions_50k_loaded (NpScalar 50000) percent_down_sweep
         (b, True) = Inr (b, True)"
proof -
  obtain b where b: "sweep_body financing_6 restrictions_50k_loaded (NpScalar 50000)
                       (best_initial, False) = Inr (b, True)"
    and v: "bv_value b = NpScalar 50000"
    using sweep_body_50000 by blast
  from inner_sweep_collapses [where f = financing_6 and r = restrictions_50k_loaded
      and j = "NpScalar 50000" and st = "(best_initial, False)" and st' = "(b, True)"
      and sweep = percent_down_sweep] b
  have "sweep_loop financing_6 restrictions_50k_loaded (NpScalar 50000) percent_down_sweep
          (b, True) = Inr (b, True)"
    by blast
  with b v show ?thesis by blast
qed


lemma at_most_Some [simp]: "at_most (Some x) (Some y) \<longleftrightarrow> val x \<le> val y"
  by (simp add: at_most_def)

lemma within_restrictions_iff:
  "within_restrictions r m \<longleftrightarrow>
     (\<exists>c mp mmp ic s ms mm. cost m = Inr c \<and>
        c ''monthly_payment'' = Some mp \<and> r ''max_monthly_payment'' = Some mmp \<and>
        val mp \<le> val mmp \<and>
        c ''initial_cost'' = Some ic \<and> r ''savings'' = Some s \<and> val ic \<le> val s \<and>
        c ''mortgage_size'' = Some ms \<and> r ''max_mortgage'' = Some mm \<and> val ms \<le> val mm)"
  unfolding within_restrictions_def at_most_def
  by (auto split: sum.splits option.splits)

lemma sweep_body_cases:
  assumes "sweep_body f r j st = Inr st'"
  shows "st' = st \<or>
         (val (bv_value (fst st)) < val j \<and>
          (\<exists>m c. getMortgage f j r = Inr m \<and> isValid m \<and> cost m = Inr c \<and>
                 within_restrictions r m \<and>
                 st' = (\<lparr>bv_value = j, bv_mortgage = m, bv_cost = c\<rparr>, True)))"
proof -
  obtain m where m: "getMortgage f j r = Inr m"
    using assms unfolding sweep_body_def by (auto simp: and_then_eq_Inr)
  show ?thesis
  proof (cases "isValid m")
    case False
    then show ?thesis using assms m by (simp add: sweep_body_def)
  next
    case True
    from assms m True obtain c mp mmp ic s ms mm bmp where
      vals: "cost m = Inr c" "c ''monthly_payment'' = Some mp"
        "r ''max_monthly_payment'' = Some mmp" "c ''initial_cost'' = Some ic"
        "r ''savings'' = Some s" "c ''mortgage_size'' = Some ms"
        "r ''max_mortgage'' = Some mm"
        "bv_cost (fst st) ''monthly_payment'' = Some bmp"
      unfolding sweep_body_def by (auto simp: and_then_eq_Inr)
    have "sweep_body f r j st =
          (if val ms > val mm then Inr st
           else if (val mp \<le> val mmp \<and> val ic \<le> val s)
                   \<or> (val j = val (bv_value (fst st)) \<and> val mp < val bmp)
           then (if val j > val (bv_value (fst st))
                 then Inr (\<lparr>bv_value = j, bv_mortgage = m, bv_cost = c\<rparr>, True)
                 else Inr st)
           else Inr st)"
      unfolding sweep_body_def using m True vals
      by (simp add: getitem_Some Let_def)
    with assms have
      "st' = st \<or>
       (val (bv_value (fst st)) < val j \<and> val ms \<le> val mm \<and> val mp \<le> val mmp \<and>
        val ic \<le> val s \<and> st' = (\<lparr>bv_value = j, bv_mortgage = m, bv_cost = c\<rparr>, True))"
      by (auto split: if_splits)
    then show ?thesis
      using m True vals(1-7) by (auto simp: within_restrictions_iff)
  qed
qed

lemma sweep_body_winner:
  "sweep_body f r j st = Inr st' \<Longrightarrow> winner_ok r (fst st) \<Longrightarrow> winner_ok r (fst st')"
  by (drule sweep_body_cases) (auto simp: winner_ok_def)

lemma sweep_loop_winner:
  "sweep_loop f r j is st = Inr st' \<Longrightarrow> winner_ok r (fst st) \<Longrightarrow> winner_ok r (fst st')"
proof (induction "is" arbitrary: st)
  case Nil
  then show ?case by simp
next
  case (Cons i "is")
  from Cons.prems(1) obtain st1 where
    st1: "sweep_body f r j st = Inr st1" "sweep_loop f r j is st1 = Inr st'"
    by (auto simp: and_then_eq_Inr)
  show ?case
    using Cons.IH [OF st1(2) sweep_body_winner [OF st1(1) Cons.prems(2)]] .
qed

lemma search_loop_winner:
  "search_loop sweep f r js st = Inr st' \<Longrightarrow> winner_ok r (fst st) \<Longrightarrow> winner_ok r (fst st')"
proof (induction js arbitrary: st)
  case Nil
  then show ?case by simp
next
  case (Cons j js)
  from Cons.prems(1) obtain x where
    x: "sweep_loop f r j sweep (fst st, False) = Inr x"
      "(if snd x then search_loop sweep f r js (fst x, snd st) else Inr (fst x, j)) = Inr st'"
    by (auto simp: and_then_eq_Inr)
  have ok: "winner_ok r (fst x)"
    using sweep_loop_winner [OF x(1)] Cons.prems(2) by simp
  show ?case
  proof (cases "snd x")
    case True
    then show ?thesis using Cons.IH [of "(fst x, snd st)"] x(2) ok by simp
  next
    case False
    then show ?thesis using x(2) ok by auto
  qed
qed

lemma best_initial_ok: "winner_ok r best_initial"
  by (simp add: winner_ok_def best_initial_def isValid_def Mortgage_new_def)

lemma search_winner:
  "search sweep depth f x lo up step = Inr m \<Longrightarrow>
   \<exists>r. loadRestrictions x = Inr r \<and> (if isValid m then within_restrictions r m else True)"
proof (induction depth arbitrary: x lo up step)
  case 0
  then show ?case by simp
next
  case (Suc depth)
  from Suc.prems obtain r where r: "loadRestrictions x = Inr r"
    by (auto simp: and_then_eq_Inr)
  from Suc.prems r obtain bounds found where
    run: "search_loop sweep f r
            (arange (fst bounds) (fst (snd bounds))
               (if val (snd (snd bounds)) < 50 then PyInt 1 else snd (snd bounds)))
            (best_initial, fst (snd bounds)) = Inr found"
    and fin: "(if (if val (snd (snd bounds)) < 50 then PyInt 1 else snd (snd bounds)) = PyInt 1
               then Inr (bv_mortgage (fst found))
               else and_then
                      (py_div (if val (snd (snd bounds)) < 50 then PyInt 1 else snd (snd bounds))
                         (PyInt 2))
                      (\<lambda>half. search sweep depth f r (bv_value (fst found)) (snd found) half))
              = Inr m"
    by (auto simp: and_then_eq_Inr Let_def)
  have ok: "winner_ok r (fst found)"
    using search_loop_winner [OF run] best_initial_ok by simp
  show ?case
  proof (cases "(if val (snd (snd bounds)) < 50 then PyInt 1 else snd (snd bounds)) = PyInt 1")
    case True
    then have "m = bv_mortgage (fst found)" using fin by simp
    then show ?thesis using r ok by (simp add: winner_ok_def)
  next
    case False
    with fin obtain half where
      "search sweep depth f r (bv_value (fst found)) (snd found) half = Inr m"
      by (auto simp: and_then_eq_Inr)
    from Suc.IH [OF this] loadRestrictions_idem [OF r] r show ?thesis by simp
  qed
qed


lemma arange_50000: "arange (PyInt 50000) (PyInt 50001) (PyInt 1) = [NpScalar 50000]"
  by (simp add: arange_def)

lemma search_50000:
  "\<exists>m. optimizeTotalHomeValue 1 financing_6 restrictions_50k (PyInt 50000) (PyInt 50001) (PyInt 1)
         = Inr m \<and> isValid m"
proof -
  obtain i0 is0 where sw: "percent_down_sweep = i0 # is0"
    using percent_down_sweep_Cons by blast
  obtain b where b: "sweep_body financing_6 restrictions_50k_loaded (NpScalar 50000)
                       (best_initial, False) = Inr (b, True)"
    and v: "isValid (bv_mortgage b)"
    using sweep_body_50000 by blast
  have "search percent_down_sweep (Suc 0) financing_6 restrictions_50k
          (PyInt 50000) (PyInt 50001) (PyInt 1) = Inr (bv_mortgage b)"
    unfolding search.simps load_restrictions_50k
    by (simp add: arange_50000 sw sweep_loop_collapse b del: sweep_loop.simps)
  then show ?thesis using v by (auto simp: optimizeTotalHomeValue_def)
qed

text \<open>
  C2.  Whenever the search returns a mortgage and that mortgage is valid, its cost
  breakdown has \<open>monthly_payment \<le> max_monthly_payment\<close>, \<open>initial_cost \<le> savings\<close> and
  \<open>mortgage_size \<le> max_mortgage\<close>, the bounds being those of the restrictions with their
  defaults filled in.  One run of the body of the inner loop either leaves \<open>best_value\<close> and
  \<open>found_a_match\<close> as they are, or replaces \<open>best_value\<close> by the candidate \<open>j\<close>, which is
  then strictly greater than the value of the best so far, with the valid mortgage
  \<open>getMortgage\<close> derives for \<open>j\<close> and its cost breakdown.
\<close>

theorem search_winner_within_restrictions:
  "(optimizeTotalHomeValue depth f restrictions lo up step = Inr m \<and> isValid m \<longrightarrow>
      (\<exists>r c mp mmp ic s ms mm.
         loadRestrictions restrictions = Inr r \<and> cost m = Inr c \<and>
         c ''monthly_payment'' = Some mp \<and> r ''max_monthly_payment'' = Some mmp \<and>
         val mp \<le> val mmp \<and>
         c ''initial_cost'' = Some ic \<and> r ''savings'' = Some s \<and> val ic \<le> val s \<and>
         c ''mortgage_size'' = Some ms \<and> r ''max_mortgage'' = Some mm \<and> val ms \<le> val mm)) \<and>
   (sweep_body f r' j (best, found) = Inr (best', found') \<longrightarrow>
      (best' = best \<and> found' = found) \<or>
      (val (bv_value best) < val j \<and> found' \<and> bv_value best' = j \<and>
       isValid (bv_mortgage best') \<and>
       getMortgage f j r' = Inr (bv_mortgage best') \<and>
       cost (bv_mortgage best') = Inr (bv_cost best')))"
proof -
  have "\<exists>r c mp mmp ic s ms mm.
         loadRestrictions restrictions = Inr r \<and> cost m = Inr c \<and>
         c ''monthly_payment'' = Some mp \<and> r ''max_monthly_payment'' = Some mmp \<and>
         val mp \<le> val mmp \<and>
         c ''initial_cost'' = Some ic \<and> r ''savings'' = Some s \<and> val ic \<le> val s \<and>
         c ''mortgage_size'' = Some ms \<and> r ''max_mortgage'' = Some mm \<and> val ms \<le> val mm"
    if "optimizeTotalHomeValue depth f restrictions lo up step = Inr m" "isValid m"
  proof -
    from that obtain r where "loadRestrictions restrictions = Inr r" "within_restrictions r m"
      using search_winner [of percent_down_sweep depth f restrictions lo up step m]
      by (auto simp: optimizeTotalHomeValue_def)
    then show ?thesis unfolding within_restrictions_iff by blast
  qed
  moreover have "(best' = best \<and> found' = found) \<or>
      (val (bv_value best) < val j \<and> found' \<and> bv_value best' = j \<and>
       isValid (bv_mortgage best') \<and>
       getMortgage f j r' = Inr (bv_mortgage best') \<and>
       cost (bv_mortgage best') = Inr (bv_cost best'))"
    if "sweep_body f r' j (best, found) = Inr (best', found')"
    using sweep_body_cases [OF that] by auto
  ultimately show ?thesis by blast
qed

theorem search_winner_within_restrictions_witness:
  "(\<exists>m c mp ic ms.
     optimizeTotalHomeValue 1 financing_6 restrictions_50k (PyInt 50000) (PyInt 50001) (PyInt 1)
       = Inr m \<and> isValid m \<and> cost m = Inr c \<and>
     c ''monthly_payment'' = Some mp \<and> val mp \<le> 3000 \<and>
     c ''initial_cost'' = Some ic \<and> val ic \<le> 50000 \<and>
     c ''mortgage_size'' = Some ms \<and> val ms \<le> 999999999999999999) \<and>
   (\<exists>b. sweep_body financing_6 restrictions_50k_loaded (NpScalar 50000) (best_initial, False)
          = Inr (b, True) \<and>
        val (bv_value best_initial) < val (NpScalar 50000) \<and> bv_value b = NpScalar 50000 \<and>
        isValid (bv_mortgage b) \<and>
        getMortgage financing_6 (NpScalar 50000) restrictions_50k_loaded = Inr (bv_mortgage b) \<and>
        cost (bv_mortgage b) = Inr (bv_cost b))"
proof -
  obtain b where b: "sweep_body financing_6 restrictions_50k_loaded (NpScalar 50000)
                       (best_initial, False) = Inr (b, True)"
    using sweep_body_50000 by blast
  from search_winner_within_restrictions
    [where f = financing_6 and r' = restrictions_50k_loaded and j = "NpScalar 50000"
       and best = best_initial and found = False and best' = b and found' = True,
     THEN conjunct2] b
  have upd: "val (bv_value best_initial) < val (NpScalar 50000) \<and> bv_value b = NpScalar 50000 \<and>
        isValid (bv_mortgage b) \<and>
        getMortgage financing_6 (NpScalar 50000) restrictions_50k_loaded = Inr (bv_mortgage b) \<and>
        cost (bv_mortgage b) = Inr (bv_cost b)"
    by simp
  obtain m where m:
    "optimizeTotalHomeValue 1 financing_6 restrictions_50k (PyInt 50000) (PyInt 50001) (PyInt 1)
       = Inr m" "isValid m"
    using search_50000 by blast
  from search_winner_within_restrictions
    [where depth = 1 and f = financing_6 and restrictions = restrictions_50k
       and lo = "PyInt 50000" and up = "PyInt 50001" and step = "PyInt 1" and m = m,
     THEN conjunct1] m
  obtain r c mp mmp ic s ms mm where r: "loadRestrictions restrictions_50k = Inr r"
    and c: "cost m = Inr c"
    "c ''monthly_payment'' = Some mp" "c ''initial_cost'' = Some ic" "c ''mortgage_size'' = Some ms"
    and le: "r ''max_monthly_payment'' = Some mmp" "val mp \<le> val mmp"
    "r ''savings'' = Some s" "val ic \<le> val s"
    "r ''max_mortgage'' = Some mm" "val ms \<le> val mm"
    by blast
  from r have "r = restrictions_50k_loaded"
    by (simp add: load_restrictions_50k)
  with le have "val mp \<le> 3000" "val ic \<le> 50000" "val ms \<le> 999999999999999999"
    by (auto simp: restrictions_50k_loaded_def restrictions_50k_def)
  with m c have "\<exists>m c mp ic ms.
     optimizeTotalHomeValue 1 financing_6 restrictions_50k (PyInt 50000) (PyInt 50001) (PyInt 1)
       = Inr m \<and> isValid m \<and> cost m = Inr c \<and>
     c ''monthly_payment'' = Some mp \<and> val mp \<le> 3000 \<and>
     c ''initial_cost'' = Some ic \<and> val ic \<le> 50000 \<and>
     c ''mortgage_size'' = Some ms \<and> val ms \<le> 999999999999999999"
    by blast
  with b upd show ?thesis by blast
qed


lemma load_restrictions_tight:
  "loadRestrictions restrictions_tight = Inr restrictions_tight_loaded"
  by (simp add: loadRestrictions_def restrictions_tight_def restrictions_tight_loaded_def)

lemma sweep_body_tight:
  "sweep_body financing_6 restrictions_tight_loaded (NpScalar 50000) (best_initial, False)
     = Inr (best_initial, False)"
  unfolding sweep_body_def
  by (simp add: run_simps loadRestrictions_def loadFinancing_def financing_6_def
      restrictions_tight_loaded_def restrictions_tight_def best_initial_def
      cong: and_then_weak_cong)

lemma search_loop_no_match:
  assumes "sweep_body f r j (fst st, False) = Inr (b, False)"
  shows "search_loop percent_down_sweep f r (j # js) st = Inr (b, j)"
proof -
  obtain i0 is0 where sw: "percent_down_sweep = i0 # is0"
    using percent_down_sweep_Cons by blast
  show ?thesis
    unfolding sw search_loop.simps sweep_loop_collapse assms by simp
qed

lemma search_tight_never_returns:
  assumes "loadRestrictions x = Inr restrictions_tight_loaded"
  shows "search percent_down_sweep depth financing_6 x (PyInt 0) up step = Inl RecursionError"
  using assms
proof (induction depth arbitrary: x up step)
  case 0
  show ?case by simp
next
  case (Suc depth)
  obtain js where js: "arange (PyInt 50000) (PyInt 9999999) (PyInt 100000) = NpScalar 50000 # js"
    using arange_Cons [of "PyInt 50000" "PyInt 9999999" "PyInt 100000"] by auto
  have sav: "getitem restrictions_tight_loaded ''savings'' = Inr (PyInt 50000)"
    by (simp add: restrictions_tight_loaded_def restrictions_tight_def)
  have loop: "search_loop percent_down_sweep financing_6 restrictions_tight_loaded
                (NpScalar 50000 # js) (best_initial, PyInt 9999999)
              = Inr (best_initial, NpScalar 50000)"
    by (rule search_loop_no_match) (simp add: sweep_body_tight)
  have bv: "bv_value best_initial = PyInt 0"
    by (simp add: best_initial_def)
  have again: "loadRestrictions restrictions_tight_loaded = Inr restrictions_tight_loaded"
    using loadRestrictions_idem [OF load_restrictions_tight] .
  have "search percent_down_sweep (Suc depth) financing_6 x (PyInt 0) up step
          = search percent_down_sweep depth financing_6 restrictions_tight_loaded
              (PyInt 0) (NpScalar 50000) (PyFloat 50000)"
    unfolding search.simps Suc.prems
    by (simp add: sav js loop bv del: search_loop.simps)
  then show ?case using Suc.IH [OF again] by simp
qed

text \<open>
  C3.  The restrictions \<open>{"savings": 50000, "max_monthly_payment": 10}\<close> pass the
  validation, and the search on them never returns: the first candidate, 50000, is not
  accepted, the best value stays the int \<open>0\<close>, and the recursive call, given that \<open>0\<close> as
  its lower bound, takes it for the initial call and starts over with the step 100000.
  Whatever number of nested calls the interpreter allows, the outcome is
  \<open>RecursionError\<close>.
\<close>

theorem optimize_never_returns:
  "loadRestrictions restrictions_tight = Inr restrictions_tight_loaded \<and>
   optimize depth financing_6 restrictions_tight = Inl RecursionError"
  using search_tight_never_returns [OF load_restrictions_tight]
  by (simp add: optimize_def optimizeTotalHomeValue_def load_restrictions_tight)


lemma and_then_eq_Inl:
  "and_then a g = Inl e \<longleftrightarrow> a = Inl e \<or> (\<exists>x. a = Inr x \<and> g x = Inl e)"
  by (cases a) simp_all

lemma loadRestrictions_Inl:
  "loadRestrictions x = Inl e \<Longrightarrow> restrictions_invalid x \<and> (\<exists>v. e = ValueError v)"
  unfolding loadRestrictions_def restrictions_invalid_def Let_def
  by (auto split: option.splits if_splits simp: domIff)

lemma loadRestrictions_invalid:
  "restrictions_invalid x \<Longrightarrow> \<exists>v. loadRestrictions x = Inl (ValueError v)"
  unfolding loadRestrictions_def restrictions_invalid_def Let_def
  by (auto split: option.splits if_splits simp: domIff)

lemma loadRestrictions_valid:
  "\<not> restrictions_invalid x \<Longrightarrow> \<exists>r. loadRestrictions x = Inr r"
  using loadRestrictions_Inl [of x] by (cases "loadRestrictions x") auto

lemma loadFinancing_Inl:
  "loadFinancing f = Inl e \<longleftrightarrow> ''interest_rate'' \<notin> dom f \<and> e = ValueError Interest_rate_unset"
  unfolding loadFinancing_def Let_def by auto

lemma getitem_not_ValueError [simp]: "getitem d k \<noteq> Inl (ValueError v)"
  by (simp add: getitem_def split: option.splits)

lemma py_div_not_ValueError [simp]: "py_div a b \<noteq> Inl (ValueError v)"
  by (simp add: py_div_def)

lemma pmt_not_ValueError [simp]: "pmt r n pv \<noteq> Inl (ValueError v)"
  by (simp add: pmt_def Let_def)

lemma cost_not_ValueError: "cost m \<noteq> Inl (ValueError v)"
  unfolding cost_def Let_def
  by (auto simp: and_then_eq_Inl)

lemma getMortgage_ValueError:
  assumes "getMortgage f h x = Inl (ValueError v)"
  shows "''interest_rate'' \<notin> dom f \<or> restrictions_invalid x"
  using assms unfolding getMortgage_def Let_def
  by (auto simp: and_then_eq_Inl loadFinancing_Inl dest: loadRestrictions_Inl split: if_splits)

lemma getMortgage_raises:
  assumes "''interest_rate'' \<notin> dom f \<or> restrictions_invalid x"
  shows "\<exists>v. getMortgage f h x = Inl (ValueError v)"
proof (cases "''interest_rate'' \<in> dom f")
  case False
  then have "loadFinancing f = Inl (ValueError Interest_rate_unset)"
    by (simp add: loadFinancing_Inl)
  then show ?thesis by (simp add: getMortgage_def)
next
  case True
  then obtain fin where "loadFinancing f = Inr fin"
    by (cases "loadFinancing f") (auto simp: loadFinancing_Inl)
  moreover obtain v where "loadRestrictions x = Inl (ValueError v)"
    using assms True loadRestrictions_invalid by blast
  ultimately show ?thesis by (simp add: getMortgage_def)
qed

lemma sweep_body_ValueError:
  assumes "sweep_body f r j st = Inl (ValueError v)"
  shows "''interest_rate'' \<notin> dom f \<or> restrictions_invalid r"
  using assms unfolding sweep_body_def Let_def
  by (auto simp: and_then_eq_Inl cost_not_ValueError dest: getMortgage_ValueError split: if_splits)

lemma sweep_loop_ValueError:
  "sweep_loop f r j is st = Inl (ValueError v) \<Longrightarrow>
   ''interest_rate'' \<notin> dom f \<or> restrictions_invalid r"
  by (induction "is" arbitrary: st) (auto simp: and_then_eq_Inl dest: sweep_body_ValueError)

lemma search_loop_ValueError:
  "search_loop sweep f r js st = Inl (ValueError v) \<Longrightarrow>
   ''interest_rate'' \<notin> dom f \<or> restrictions_invalid r"
  by (induction js arbitrary: st)
     (auto simp: and_then_eq_Inl dest: sweep_loop_ValueError split: if_splits)

lemma loaded_valid: "loadRestrictions x = Inr r \<Longrightarrow> \<not> restrictions_invalid r"
  using loadRestrictions_idem [of x r] loadRestrictions_invalid [of r] by auto

lemma search_ValueError:
  "search sweep depth f x lo up step = Inl (ValueError v) \<Longrightarrow>
   ''interest_rate'' \<notin> dom f \<or> restrictions_invalid x"
proof (induction depth arbitrary: x lo up step)
  case 0
  then show ?case by simp
next
  case (Suc depth)
  show ?case
  proof (cases "loadRestrictions x")
    case (Inl e)
    then show ?thesis using loadRestrictions_Inl by blast
  next
    case (Inr r)
    have nr: "\<not> restrictions_invalid r" using loaded_valid [OF Inr] .
    from Suc.prems Inr have
      "(\<exists>js st. search_loop sweep f r js st = Inl (ValueError v)) \<or>
       (\<exists>lo' up' step'. search sweep depth f r lo' up' step' = Inl (ValueError v))"
      by (auto simp: and_then_eq_Inl Let_def split: if_splits)
    then show ?thesis
      using search_loop_ValueError [of sweep f r] Suc.IH [of r] nr by blast
  qed
qed

lemma search_invalid:
  assumes "restrictions_invalid x"
  shows "\<exists>v. loadRestrictions x = Inl (ValueError v) \<and>
             search sweep (Suc depth) f x lo up step = Inl (ValueError v)"
proof -
  obtain v where "loadRestrictions x = Inl (ValueError v)"
    using loadRestrictions_invalid [OF assms] by blast
  then show ?thesis by simp
qed

lemma search_unset_rate:
  assumes "''interest_rate'' \<notin> dom f" and "loadRestrictions x = Inr r"
    and "r ''savings'' = Some s" and "val s < 9999999"
  shows "search percent_down_sweep (Suc depth) f x (PyInt 0) up step
           = Inl (ValueError Interest_rate_unset)"
proof -
  obtain i0 is0 where sw: "percent_down_sweep = i0 # is0"
    using percent_down_sweep_Cons by blast
  obtain js where js: "arange s (PyInt 9999999) (PyInt 100000) = NpScalar (val s) # js"
    using arange_Cons [of s "PyInt 9999999" "PyInt 100000"] assms(4) by auto
  have "loadFinancing f = Inl (ValueError Interest_rate_unset)"
    using assms(1) by (simp add: loadFinancing_Inl)
  then have "sweep_body f r j st = Inl (ValueError Interest_rate_unset)" for j st
    by (simp add: sweep_body_def getMortgage_def)
  then have "search_loop percent_down_sweep f r (NpScalar (val s) # js) st
               = Inl (ValueError Interest_rate_unset)" for st
    unfolding sw search_loop.simps sweep_loop_collapse by simp
  then show ?thesis
    unfolding search.simps assms(2)
    by (simp add: getitem_Some assms(3) js del: search_loop.simps)
qed


lemma load_restrictions_rich:
  "loadRestrictions restrictions_rich = Inr restrictions_rich_loaded"
  by (simp add: loadRestrictions_def restrictions_rich_def restrictions_rich_loaded_def)

lemma search_rich_never_returns:
  assumes "loadRestrictions x = Inr restrictions_rich_loaded"
  shows "search sweep depth f x (PyInt 0) up step = Inl RecursionError"
  using assms
proof (induction depth arbitrary: x up step)
  case 0
  show ?case by simp
next
  case (Suc depth)
  have rng: "arange (PyInt 10000000) (PyInt 9999999) (PyInt 100000) = []"
    by (rule arange_empty) simp_all
  have sav: "getitem restrictions_rich_loaded ''savings'' = Inr (PyInt 10000000)"
    by (simp add: restrictions_rich_loaded_def restrictions_rich_def)
  have bv: "bv_value best_initial = PyInt 0"
    by (simp add: best_initial_def)
  have again: "loadRestrictions restrictions_rich_loaded = Inr restrictions_rich_loaded"
    using loadRestrictions_idem [OF load_restrictions_rich] .
  have "search sweep (Suc depth) f x (PyInt 0) up step
          = search sweep depth f restrictions_rich_loaded (PyInt 0) (PyInt 9999999) (PyFloat 50000)"
    unfolding search.simps Suc.prems
    by (simp add: sav rng bv)
  then show ?case using Suc.IH [OF again] by simp
qed

lemma restrictions_50k_valid: "\<not> restrictions_invalid restrictions_50k"
  by (simp add: restrictions_invalid_def restrictions_50k_def)

text \<open>
  C8, amended.  Restrictions that lack \<open>savings\<close>, or have \<open>savings < 10000\<close>, or supply
  neither \<open>max_monthly_payment\<close> nor \<open>max_mortgage\<close>, make \<open>optimize\<close> raise the
  \<open>ValueError\<close> of \<open>loadRestrictions\<close> before anything else is done, whatever the bounds,
  the step and the financing.  \<open>getMortgage\<close> raises a \<open>ValueError\<close> exactly when the
  financing lacks \<open>interest_rate\<close> or the restrictions fail the validation.  A \<open>ValueError\<close>
  out of \<open>optimize\<close> always has one of these two causes.  A financing without
  \<open>interest_rate\<close> makes \<open>optimize(restrictions)\<close> raise when the search evaluates its
  first candidate, that is, for valid restrictions with \<open>savings < 9999999\<close>.
\<close>

theorem validation_errors:
  "(restrictions_invalid x \<longrightarrow>
      (\<exists>v. loadRestrictions x = Inl (ValueError v) \<and>
           optimizeTotalHomeValue (Suc depth) f x lo up step = Inl (ValueError v))) \<and>
   ((\<exists>v. getMortgage f h x = Inl (ValueError v))
      \<longleftrightarrow> ''interest_rate'' \<notin> dom f \<or> restrictions_invalid x) \<and>
   ((\<exists>v. optimizeTotalHomeValue depth f x lo up step = Inl (ValueError v))
      \<longrightarrow> ''interest_rate'' \<notin> dom f \<or> restrictions_invalid x) \<and>
   (''interest_rate'' \<notin> dom f \<and> \<not> restrictions_invalid x \<and>
    x ''savings'' = Some s \<and> val s < 9999999
      \<longrightarrow> optimize (Suc depth) f x = Inl (ValueError Interest_rate_unset))"
proof -
  have p1: "\<exists>v. loadRestrictions x = Inl (ValueError v) \<and>
                optimizeTotalHomeValue (Suc depth) f x lo up step = Inl (ValueError v)"
    if "restrictions_invalid x"
    unfolding optimizeTotalHomeValue_def using search_invalid [OF that] .
  have p2: "(\<exists>v. getMortgage f h x = Inl (ValueError v))
              \<longleftrightarrow> ''interest_rate'' \<notin> dom f \<or> restrictions_invalid x"
    using getMortgage_ValueError [of f h x] getMortgage_raises [of f x h] by blast
  have p3: "''interest_rate'' \<notin> dom f \<or> restrictions_invalid x"
    if "\<exists>v. optimizeTotalHomeValue depth f x lo up step = Inl (ValueError v)"
    using that search_ValueError [of percent_down_sweep depth f x lo up step]
    unfolding optimizeTotalHomeValue_def by blast
  have p4: "optimize (Suc depth) f x = Inl (ValueError Interest_rate_unset)"
    if a: "''interest_rate'' \<notin> dom f" "\<not> restrictions_invalid x"
      "x ''savings'' = Some s" "val s < 9999999"
  proof -
    obtain r where r: "loadRestrictions x = Inr r"
      using loadRestrictions_valid [OF a(2)] by blast
    then have "r ''savings'' = Some s"
      using loadRestrictions_Inr [OF r] a(3) by auto
    then show ?thesis
      unfolding optimize_def optimizeTotalHomeValue_def
      using search_unset_rate [OF a(1) r _ a(4)] by simp
  qed
  show ?thesis using p1 p2 p3 p4 by blast
qed

theorem validation_errors_witness:
  "restrictions_invalid restrictions_5k \<and>
   optimizeTotalHomeValue 1 financing_6 restrictions_5k (PyInt 0) (PyInt 0) (PyInt 0)
     = Inl (ValueError Savings_too_low) \<and>
   getMortgage financing_6 (PyInt 200000) restrictions_5k = Inl (ValueError Savings_too_low) \<and>
   ''interest_rate'' \<notin> dom (Map.empty :: dict) \<and> \<not> restrictions_invalid restrictions_50k \<and>
   restrictions_50k ''savings'' = Some (PyInt 50000) \<and> val (PyInt 50000) < 9999999 \<and>
   optimize 1 Map.empty restrictions_50k = Inl (ValueError Interest_rate_unset) \<and>
   getMortgage Map.empty (PyInt 200000) restrictions_50k = Inl (ValueError Interest_rate_unset)"
proof -
  have inv: "restrictions_invalid restrictions_5k"
    by (simp add: restrictions_invalid_def restrictions_5k_def)
  have low: "loadRestrictions restrictions_5k = Inl (ValueError Savings_too_low)"
    by (simp add: loadRestrictions_def restrictions_5k_def)
  have sav: "restrictions_50k ''savings'' = Some (PyInt 50000)"
    by (simp add: restrictions_50k_def)
  note inst = validation_errors [where depth = 0 and lo = "PyInt 0" and up = "PyInt 0"
      and step = "PyInt 0" and h = "PyInt 200000"]
  have "optimizeTotalHomeValue 1 financing_6 restrictions_5k (PyInt 0) (PyInt 0) (PyInt 0)
          = Inl (ValueError Savings_too_low)"
    using inst [where x = restrictions_5k and f = financing_6, THEN conjunct1] inv low
    by auto
  moreover have "optimize 1 Map.empty restrictions_50k = Inl (ValueError Interest_rate_unset)"
    using inst [where x = restrictions_50k and f = Map.empty and s = "PyInt 50000",
        THEN conjunct2, THEN conjunct2, THEN conjunct2]
      restrictions_50k_valid sav
    by simp
  moreover have "\<exists>v. getMortgage financing_6 (PyInt 200000) restrictions_5k = Inl (ValueError v)"
    using inst [where x = restrictions_5k and f = financing_6, THEN conjunct2, THEN conjunct1] inv
    by simp
  then have "getMortgage financing_6 (PyInt 200000) restrictions_5k
               = Inl (ValueError Savings_too_low)"
    by (auto simp: getMortgage_def load_financing_6 low)
  moreover have "\<exists>v. getMortgage Map.empty (PyInt 200000) restrictions_50k = Inl (ValueError v)"
    using inst [where x = restrictions_50k and f = Map.empty, THEN conjunct2, THEN conjunct1]
    by simp
  then have "getMortgage Map.empty (PyInt 200000) restrictions_50k
               = Inl (ValueError Interest_rate_unset)"
    by (auto simp: getMortgage_def loadFinancing_def)
  ultimately show ?thesis using inv restrictions_50k_valid sav by simp
qed

text \<open>
  Without \<open>interest_rate\<close> and with valid restrictions, \<open>optimize\<close> over an empty range
  of candidates returns the initial, invalid mortgage and raises nothing; and
  \<open>optimize(restrictions)\<close> with savings of 10000000, which leave the first pass no
  candidate, ends in \<open>RecursionError\<close>, not in a \<open>ValueError\<close>.
\<close>

theorem optimize_unset_rate_counterexample:
  "''interest_rate'' \<notin> dom (Map.empty :: dict) \<and> \<not> restrictions_invalid restrictions_50k \<and>
   optimizeTotalHomeValue 1 Map.empty restrictions_50k (PyInt 50000) (PyInt 50000) (PyInt 1)
     = Inr (Mortgage_new (PyInt 0) Map.empty Map.empty) \<and>
   \<not> restrictions_invalid restrictions_rich \<and>
   optimize 1000 Map.empty restrictions_rich = Inl RecursionError"
proof -
  have rng: "arange (PyInt 50000) (PyInt 50000) (PyInt 1) = []"
    by (rule arange_empty) simp_all
  have "search percent_down_sweep (Suc 0) Map.empty restrictions_50k
          (PyInt 50000) (PyInt 50000) (PyInt 1) = Inr (bv_mortgage best_initial)"
    unfolding search.simps load_restrictions_50k by (simp add: rng)
  then have "optimizeTotalHomeValue 1 Map.empty restrictions_50k
               (PyInt 50000) (PyInt 50000) (PyInt 1)
             = Inr (Mortgage_new (PyInt 0) Map.empty Map.empty)"
    by (simp add: optimizeTotalHomeValue_def best_initial_def)
  moreover have "\<not> restrictions_invalid restrictions_rich"
    by (simp add: restrictions_invalid_def restrictions_rich_def)
  moreover have "optimize 1000 Map.empty restrictions_rich = Inl RecursionError"
    unfolding optimize_def optimizeTotalHomeValue_def
    by (rule search_rich_never_returns [OF load_restrictions_rich])
  ultimately show ?thesis using restrictions_50k_valid by simp
qed







lemma cost_float_zero:
  "val (home_value (Mortgage_new (PyFloat 0) loan_terms Map.empty)) = 0 \<and>
   cost (Mortgage_new (PyFloat 0) loan_terms Map.empty) = Inl ZeroDivisionError"
  by (simp add: cost_def Mortgage_new_def asset_defaults_def loan_terms_def
      py_div_def py_num cong: and_then_weak_cong)




end
